theory Spec2Isabelle
  imports Complex_Main "HOL-Library.Word"
begin

unbundle bit_operations_syntax

section \<open>Values of the program\<close>

text \<open>
  A Node \<^verbatim>\<open>Buffer\<close> is a list of bytes.  A JavaScript \<^verbatim>\<open>Error\<close> is its message; the
  errors the runtime hands to the callbacks (lookup, send, connect) and the ones the
  codec throws are values of the same type.
\<close>

type_synonym byte = "8 word"
type_synonym bytes = "byte list"

datatype error = Error string

text \<open>
  The fields of a DNS packet that \<^verbatim>\<open>client.js\<close> and \<^verbatim>\<open>index.js\<close> read or write.  The
  resource records are opaque to both files, hence the type parameter.  The field
  \<^verbatim>\<open>id\<close> of the source is \<open>pkt_id\<close> here (\<open>id\<close> is the identity function of HOL).
\<close>

record 'rr packet =
  pkt_id :: nat
  truncated :: bool
  rcode :: nat
  answer :: "'rr list"
  authority :: "'rr list"
  additional :: "'rr list"

text \<open>
  The values the \<^verbatim>\<open>options\<close> argument and its \<^verbatim>\<open>timeout\<close> property can hold.  A number
  is a finite value, \<^verbatim>\<open>NaN\<close> or an infinity; the finite ones are over-approximated by
  the rationals.  \<open>OptionsObject v\<close> is any value other than \<^verbatim>\<open>null\<close> and
  \<^verbatim>\<open>undefined\<close> whose property \<^verbatim>\<open>timeout\<close> reads as \<open>v\<close> (\<open>JsUndefined\<close> when the
  property is absent).
\<close>

datatype js_number = Finite rat | NaN | PosInfinity | NegInfinity

datatype js_value =
    JsUndefined
  | JsNull
  | JsBoolean bool
  | JsNumber js_number
  | JsString string
  | JsObject

datatype options = OptionsUndefined | OptionsNull | OptionsObject js_value

text \<open>
  A promise is resolved, rejected or still pending.  \<open>Uncaught e\<close> is an exception that
  left an event listener without being caught: it reaches the event loop, not the
  promise, and by default ends the process.
\<close>

datatype 'a outcome = Resolved 'a | Rejected error | Pending | Uncaught error

text \<open>What the program does to the outside, in the order it does it.\<close>

datatype effect =
    DnsLookup string
  | PacketSerialize
  | SetTimeout js_value
  | ClearTimeout
  | DgramCreateSocket nat
  | DgramSend bytes nat string
  | DgramClose
  | NetCreateConnection nat string
  | SocketWrite bytes
  | SocketEnd

text \<open>
  What the outside does to one exchange: the events of the UDP socket and its timer,
  and the events of the TCP socket and its timer.  The listener on \<^verbatim>\<open>'closed'\<close>
  (line 32) has no event here: a \<^verbatim>\<open>net.Socket\<close> emits \<^verbatim>\<open>'close'\<close>, never \<^verbatim>\<open>'closed'\<close>.
\<close>

datatype udp_event = UdpMessage bytes | UdpSendCallback "error option" | UdpTimeout

datatype tcp_event = TcpConnect | TcpError error | TcpEnd | TcpData bytes | TcpTimeout

record env =
  lookup_result :: "error + (string \<times> nat)"
  udp_events :: "udp_event list"
  tcp_events :: "tcp_event list"

section \<open>client.js\<close>

subsection \<open>The timeout option (lines 84 to 88)\<close>

fun Number_isInteger :: "js_value \<Rightarrow> bool" where
  "Number_isInteger (JsNumber (Finite q)) = (q = of_int \<lfloor>q\<rfloor>)"
| "Number_isInteger _ = False"

text \<open>\<^verbatim>\<open>options.timeout\<close>, after \<^verbatim>\<open>null\<close> and \<^verbatim>\<open>undefined\<close> were replaced by \<^verbatim>\<open>{}\<close>.\<close>

definition options_timeout :: "options \<Rightarrow> js_value" where
  "options_timeout options =
     (case options of
        OptionsUndefined \<Rightarrow> JsUndefined
      | OptionsNull \<Rightarrow> JsUndefined
      | OptionsObject v \<Rightarrow> v)"

definition client_timeout :: "options \<Rightarrow> js_value" where
  "client_timeout options =
     (if Number_isInteger (options_timeout options) then options_timeout options
      else JsNumber (Finite 3000))"

text \<open>
  The timeout as the specification words it: the option when it is a positive
  integer, 3000 otherwise.  Only compared with \<open>client_timeout\<close>.
\<close>

definition spec_timeout :: "options \<Rightarrow> js_value" where
  "spec_timeout options =
     (case options_timeout options of
        JsNumber (Finite q) \<Rightarrow>
          if q = of_int \<lfloor>q\<rfloor> \<and> 0 < q then JsNumber (Finite q) else JsNumber (Finite 3000)
      | _ \<Rightarrow> JsNumber (Finite 3000))"

subsection \<open>The UDP attempt (lines 105 to 128)\<close>

text \<open>
  The listener of the datagram socket (lines 112 to 119).  \<^verbatim>\<open>Packet.parse\<close> is called
  outside any \<^verbatim>\<open>try\<close>: what it throws leaves the listener.  \<open>Pending\<close> is a callback
  that returned without settling the promise.
\<close>

definition udp_on_message ::
  "(bytes \<Rightarrow> error + 'rr packet) \<Rightarrow> nat \<Rightarrow> bytes \<Rightarrow> 'rr packet outcome \<times> effect list" where
  "udp_on_message parse requestId data =
     (case parse data of
        Inl e \<Rightarrow> (Uncaught e, [])
      | Inr response \<Rightarrow>
          if pkt_id response = requestId
          then (Resolved response, [ClearTimeout, DgramClose])
          else (Pending, []))"

text \<open>
  The promise of lines 105 to 128 under a sequence of events, up to the event that
  settles it.  The timer closes the socket and rejects (lines 107 to 110); a send
  callback with an error clears the timer, closes and rejects (lines 121 to 127).  An
  exception that leaves the listener ends the run as \<open>Uncaught\<close>: nothing in the module
  catches it, and neither the timer is cleared nor the socket closed.
\<close>

fun udp_wait ::
  "(bytes \<Rightarrow> error + 'rr packet) \<Rightarrow> nat \<Rightarrow> udp_event list \<Rightarrow> 'rr packet outcome \<times> effect list" where
  "udp_wait parse requestId [] = (Pending, [])"
| "udp_wait parse requestId (UdpTimeout # evs) = (Rejected (Error ''Timeout''), [DgramClose])"
| "udp_wait parse requestId (UdpSendCallback None # evs) = udp_wait parse requestId evs"
| "udp_wait parse requestId (UdpSendCallback (Some e) # evs) =
     (Rejected e, [ClearTimeout, DgramClose])"
| "udp_wait parse requestId (UdpMessage data # evs) =
     (case udp_on_message parse requestId data of
        (Pending, _) \<Rightarrow> udp_wait parse requestId evs
      | r \<Rightarrow> r)"

subsection \<open>TCP framing (lines 42 to 68 and 155 to 159)\<close>

text \<open>
  \<^verbatim>\<open>buffer\<close> and \<^verbatim>\<open>packetLength\<close> of line 42, \<open>None\<close> for \<^verbatim>\<open>undefined\<close>.
\<close>

record reassembly =
  buffer :: "bytes option"
  packetLength :: "nat option"

definition reassembly_init :: reassembly where
  "reassembly_init = \<lparr>buffer = None, packetLength = None\<rparr>"

text \<open>\<^verbatim>\<open>!packetLength\<close>: \<^verbatim>\<open>undefined\<close> and 0 are falsy.\<close>

definition not_packetLength :: "nat option \<Rightarrow> bool" where
  "not_packetLength pl = (case pl of None \<Rightarrow> True | Some n \<Rightarrow> n = 0)"

text \<open>
  \<^verbatim>\<open>buffer.readUInt16BE()\<close> reads the first two bytes.  The source calls it only on a
  buffer of at least two bytes (line 49); on a shorter one \<open>!\<close> is unspecified.
\<close>

definition readUInt16BE :: "bytes \<Rightarrow> nat" where
  "readUInt16BE b = 256 * unat (b ! 0) + unat (b ! 1)"

text \<open>\<^verbatim>\<open>buf.slice(start, end)\<close> and \<^verbatim>\<open>buf.slice(start)\<close> for indices that are not negative.\<close>

definition slice :: "nat \<Rightarrow> nat \<Rightarrow> bytes \<Rightarrow> bytes" where
  "slice start end_ix b = take (end_ix - start) (drop start b)"

definition slice_from :: "nat \<Rightarrow> bytes \<Rightarrow> bytes" where
  "slice_from start b = drop start b"

datatype 'p data_result = NoPacket | EmitPacket 'p | InvalidPacket error

text \<open>
  The listener on \<^verbatim>\<open>'data'\<close> (lines 44 to 68).  When \<^verbatim>\<open>Packet.parse\<close> throws, the two
  assignments after it do not run, and the \<^verbatim>\<open>catch\<close> block is the caller's to model:
  \<open>InvalidPacket e\<close>.
\<close>

definition tcp_on_data ::
  "(bytes \<Rightarrow> error + 'p) \<Rightarrow> reassembly \<Rightarrow> bytes \<Rightarrow> reassembly \<times> 'p data_result" where
  "tcp_on_data parse st b =
     (let buf = (case buffer st of Some old \<Rightarrow> old @ b | None \<Rightarrow> b) in
      if not_packetLength (packetLength st) \<and> length buf < 2
      then (st\<lparr>buffer := Some buf\<rparr>, NoPacket)
      else
        let pl = (if not_packetLength (packetLength st) then readUInt16BE buf
                  else the (packetLength st))
        in
          if length buf \<ge> pl + 2 then
            (case parse (slice 2 (pl + 2) buf) of
               Inr packet \<Rightarrow>
                 (\<lparr>buffer = Some (slice_from pl buf), packetLength = None\<rparr>, EmitPacket packet)
             | Inl e \<Rightarrow>
                 (\<lparr>buffer = Some buf, packetLength = Some pl\<rparr>, InvalidPacket e))
          else (\<lparr>buffer = Some buf, packetLength = Some pl\<rparr>, NoPacket))"

text \<open>
  The listener run over the chunks a connection delivers, with what each chunk made
  it hand on.
\<close>

fun tcp_feed ::
  "(bytes \<Rightarrow> error + 'p) \<Rightarrow> reassembly \<Rightarrow> bytes list \<Rightarrow> 'p data_result list" where
  "tcp_feed parse st [] = []"
| "tcp_feed parse st (b # bs) =
     (case tcp_on_data parse st b of (st', r) \<Rightarrow> r # tcp_feed parse st' bs)"

text \<open>
  The two bytes of line 158: \<^verbatim>\<open>Buffer.from\<close> keeps the low eight bits of each entry.
\<close>

definition length_prefix :: "nat \<Rightarrow> bytes" where
  "length_prefix len = [of_nat (drop_bit 8 (len AND 0xff00)), of_nat (len AND 0x00ff)]"

text \<open>What lines 158 and 159 write for a message.\<close>

definition tcp_frame :: "bytes \<Rightarrow> bytes" where
  "tcp_frame m = length_prefix (length m) @ m"

text \<open>
  For the statements on framing.  \<open>handed_on parse m\<close> is what the listener does with
  the bytes \<open>m\<close> of a complete frame.  \<open>receiving m st pre\<close> is the state of a listener
  that has so far received \<open>pre\<close>, a part of the frame of \<open>m\<close>, and nothing else.
\<close>

definition handed_on :: "(bytes \<Rightarrow> error + 'p) \<Rightarrow> bytes \<Rightarrow> 'p data_result" where
  "handed_on parse m = (case parse m of Inr p \<Rightarrow> EmitPacket p | Inl e \<Rightarrow> InvalidPacket e)"

definition receiving :: "bytes \<Rightarrow> reassembly \<Rightarrow> bytes \<Rightarrow> bool" where
  "receiving m st pre \<longleftrightarrow>
     (case buffer st of None \<Rightarrow> pre = [] | Some b \<Rightarrow> b = pre)
     \<and> packetLength st = (if length pre < 2 then None else Some (length m))"

subsection \<open>The TCP connection and the TCP attempt (lines 14 to 70 and 137 to 160)\<close>

text \<open>
  The promise of \<^verbatim>\<open>getTcpSocket\<close> until it settles.  It resolves on \<^verbatim>\<open>'connect'\<close>; the
  listeners on \<^verbatim>\<open>'error'\<close>, \<^verbatim>\<open>'end'\<close> and \<^verbatim>\<open>'data'\<close> reject it.  No timer is armed yet,
  and no listener on \<^verbatim>\<open>'packet'\<close> is registered yet.  A resolved promise hands on the
  reassembly state and the events still to come.
\<close>

fun getTcpSocket_wait ::
  "(bytes \<Rightarrow> error + 'p) \<Rightarrow> reassembly \<Rightarrow> tcp_event list
     \<Rightarrow> (reassembly \<times> tcp_event list) outcome \<times> effect list" where
  "getTcpSocket_wait parse st [] = (Pending, [])"
| "getTcpSocket_wait parse st (TcpConnect # evs) = (Resolved (st, evs), [])"
| "getTcpSocket_wait parse st (TcpError e # evs) = (Rejected e, [SocketEnd])"
| "getTcpSocket_wait parse st (TcpEnd # evs) =
     (Rejected (Error ''Connection has been ended''), [])"
| "getTcpSocket_wait parse st (TcpTimeout # evs) = getTcpSocket_wait parse st evs"
| "getTcpSocket_wait parse st (TcpData b # evs) =
     (case tcp_on_data parse st b of
        (st', InvalidPacket e) \<Rightarrow> (Rejected e, [SocketEnd])
      | (st', _) \<Rightarrow> getTcpSocket_wait parse st' evs)"

definition getTcpSocket ::
  "(bytes \<Rightarrow> error + 'p) \<Rightarrow> string \<Rightarrow> nat \<Rightarrow> tcp_event list
     \<Rightarrow> (reassembly \<times> tcp_event list) outcome \<times> effect list" where
  "getTcpSocket parse host port evs =
     (case getTcpSocket_wait parse reassembly_init evs of
        (r, tr) \<Rightarrow> (r, NetCreateConnection port host # tr))"

text \<open>
  The promise of lines 139 to 160 after the two writes, until it settles.  The socket
  promise is already resolved, so the \<^verbatim>\<open>reject\<close> calls of the socket's listeners do
  nothing; their \<^verbatim>\<open>socket.end()\<close> calls remain.  A packet with the request's id
  clears the timer and resolves (lines 146 to 153; \<^verbatim>\<open>removeListener\<close> is given
  \<^verbatim>\<open>arguments.callee\<close> of the enclosing function, which is no listener, and removes
  nothing).  The timer ends the socket and rejects (lines 140 to 144).
\<close>

fun tcp_wait ::
  "(bytes \<Rightarrow> error + 'rr packet) \<Rightarrow> nat \<Rightarrow> reassembly \<Rightarrow> tcp_event list
     \<Rightarrow> 'rr packet outcome \<times> effect list" where
  "tcp_wait parse packet_id st [] = (Pending, [])"
| "tcp_wait parse packet_id st (TcpTimeout # evs) = (Rejected (Error ''Timeout''), [SocketEnd])"
| "tcp_wait parse packet_id st (TcpConnect # evs) = tcp_wait parse packet_id st evs"
| "tcp_wait parse packet_id st (TcpEnd # evs) = tcp_wait parse packet_id st evs"
| "tcp_wait parse packet_id st (TcpError e # evs) =
     (case tcp_wait parse packet_id st evs of (r, tr) \<Rightarrow> (r, SocketEnd # tr))"
| "tcp_wait parse packet_id st (TcpData b # evs) =
     (case tcp_on_data parse st b of
        (st', EmitPacket response) \<Rightarrow>
          if pkt_id response = packet_id then (Resolved response, [ClearTimeout])
          else tcp_wait parse packet_id st' evs
      | (st', InvalidPacket e) \<Rightarrow>
          (case tcp_wait parse packet_id st' evs of (r, tr) \<Rightarrow> (r, SocketEnd # tr))
      | (st', NoPacket) \<Rightarrow> tcp_wait parse packet_id st' evs)"

subsection \<open>The exchange (lines 82 to 161)\<close>

text \<open>
  \<^verbatim>\<open>Packet.parse\<close> and \<^verbatim>\<open>Packet.serialize\<close> belong to the package
  \<^verbatim>\<open>nameserver-packet\<close> and are parameters.  The UDP attempt with what precedes it:
  the lookup, the serialization of line 101, the timer, the socket and the send.
\<close>

definition udp_attempt ::
  "(bytes \<Rightarrow> error + 'rr packet) \<Rightarrow> ('rr packet \<Rightarrow> bytes) \<Rightarrow> string \<Rightarrow> nat \<Rightarrow> 'rr packet
     \<Rightarrow> js_value \<Rightarrow> string \<Rightarrow> nat \<Rightarrow> udp_event list \<Rightarrow> 'rr packet outcome \<times> effect list" where
  "udp_attempt parse serialize host port packet timeout address family evs =
     (let requestId = pkt_id packet;
          serializedPacket = serialize packet
      in case udp_wait parse requestId evs of
           (r, tr) \<Rightarrow>
             (r, [DnsLookup host, PacketSerialize, SetTimeout timeout,
                  DgramCreateSocket family, DgramSend serializedPacket port address] @ tr))"

text \<open>
  The TCP attempt (lines 137 to 160): the connection, then the timer, the second
  serialization (line 155), the two writes and the wait.
\<close>

definition tcp_attempt ::
  "(bytes \<Rightarrow> error + 'rr packet) \<Rightarrow> ('rr packet \<Rightarrow> bytes) \<Rightarrow> nat \<Rightarrow> 'rr packet
     \<Rightarrow> js_value \<Rightarrow> string \<Rightarrow> tcp_event list \<Rightarrow> 'rr packet outcome \<times> effect list" where
  "tcp_attempt parse serialize port packet timeout address evs =
     (case getTcpSocket parse address port evs of
        (Resolved (st, evs'), tr) \<Rightarrow>
          (let buf = serialize packet;
               len = length buf
           in case tcp_wait parse (pkt_id packet) st evs' of
                (r, tr') \<Rightarrow>
                  (r, tr @ [SetTimeout timeout, PacketSerialize,
                            SocketWrite (length_prefix len), SocketWrite buf] @ tr'))
      | (Rejected e, tr) \<Rightarrow> (Rejected e, tr)
      | (Pending, tr) \<Rightarrow> (Pending, tr)
      | (Uncaught e, tr) \<Rightarrow> (Uncaught e, tr))"

definition client ::
  "(bytes \<Rightarrow> error + 'rr packet) \<Rightarrow> ('rr packet \<Rightarrow> bytes) \<Rightarrow> string \<Rightarrow> nat \<Rightarrow> 'rr packet
     \<Rightarrow> options \<Rightarrow> env \<Rightarrow> 'rr packet outcome \<times> effect list" where
  "client parse serialize host port packet options e =
     (let timeout = client_timeout options in
      case lookup_result e of
        Inl err \<Rightarrow> (Rejected err, [DnsLookup host])
      | Inr (address, family) \<Rightarrow>
          (case udp_attempt parse serialize host port packet timeout address family
                  (udp_events e) of
             (Resolved response, tr) \<Rightarrow>
               if \<not> truncated response then (Resolved response, tr)
               else
                 (case tcp_attempt parse serialize port packet timeout address (tcp_events e) of
                    (r, tr') \<Rightarrow> (r, tr @ tr'))
           | (r, tr) \<Rightarrow> (r, tr)))"

section \<open>index.js\<close>

text \<open>The argument of the exported function: one server or an array of servers (line 10).\<close>

datatype forwarders_arg = ForwarderString string | ForwarderArray "string list"

definition forwarders_list :: "forwarders_arg \<Rightarrow> string list" where
  "forwarders_list forwarders =
     (case forwarders of ForwarderString s \<Rightarrow> [s] | ForwarderArray xs \<Rightarrow> xs)"

text \<open>How the middleware called its continuation: \<^verbatim>\<open>next()\<close> or \<^verbatim>\<open>next(e)\<close>.\<close>

datatype next_call = Next | NextError error

text \<open>
  \<^verbatim>\<open>success\<close> (lines 13 to 25) on the packet of \<^verbatim>\<open>res\<close>: each loop pushes the entries of
  the result one at a time.
\<close>

definition push_all :: "'a list \<Rightarrow> 'a list \<Rightarrow> 'a list" where
  "push_all target xs = foldl (\<lambda>acc x. acc @ [x]) target xs"

definition success :: "'rr packet \<Rightarrow> 'rr packet \<Rightarrow> 'rr packet \<times> next_call" where
  "success res result =
     (res\<lparr>rcode := rcode result,
          answer := push_all (answer res) (answer result),
          authority := push_all (authority res) (authority result),
          additional := push_all (additional res) (additional result)\<rparr>,
      Next)"

text \<open>
  \<^verbatim>\<open>tryForward\<close> (lines 29 to 43) over what the iterator still holds.  The counter \<open>i\<close>
  of the source selects the environment of the attempt.  The client is called with
  three arguments: its \<^verbatim>\<open>options\<close> are \<^verbatim>\<open>undefined\<close>.  Only a rejection is caught and
  followed by the next server.
\<close>

fun tryForward ::
  "(bytes \<Rightarrow> error + 'rr packet) \<Rightarrow> ('rr packet \<Rightarrow> bytes) \<Rightarrow> (nat \<Rightarrow> env) \<Rightarrow> 'rr packet
     \<Rightarrow> nat \<Rightarrow> string list \<Rightarrow> 'rr packet outcome \<times> effect list" where
  "tryForward parse serialize envs req i [] =
     (Rejected (Error ''No more servers to try''), [])"
| "tryForward parse serialize envs req i (server # rest) =
     (case client parse serialize server 53 req OptionsUndefined (envs i) of
        (Rejected e, tr) \<Rightarrow>
          (case tryForward parse serialize envs req (i + 1) rest of
             (r, tr') \<Rightarrow> (r, tr @ tr'))
      | (r, tr) \<Rightarrow> (r, tr))"

text \<open>
  The middleware (lines 12 to 51): the packet of \<^verbatim>\<open>res\<close> afterwards, the call of
  \<^verbatim>\<open>next\<close> if there was one, and the effects of the exchanges.
\<close>

definition forward ::
  "(bytes \<Rightarrow> error + 'rr packet) \<Rightarrow> ('rr packet \<Rightarrow> bytes) \<Rightarrow> forwarders_arg \<Rightarrow> (nat \<Rightarrow> env)
     \<Rightarrow> 'rr packet \<Rightarrow> 'rr packet \<Rightarrow> 'rr packet \<times> next_call option \<times> effect list" where
  "forward parse serialize forwarders envs req res =
     (case tryForward parse serialize envs req 0 (forwarders_list forwarders) of
        (Resolved result, tr) \<Rightarrow>
          (case success res result of (res', n) \<Rightarrow> (res', Some n, tr))
      | (Rejected e, tr) \<Rightarrow> (res, Some (NextError e), tr)
      | (r, tr) \<Rightarrow> (res, None, tr))"

section \<open>Reading a trace\<close>

fun tcp_connections :: "effect list \<Rightarrow> (nat \<times> string) list" where
  "tcp_connections [] = []"
| "tcp_connections (NetCreateConnection port host # tr) = (port, host) # tcp_connections tr"
| "tcp_connections (_ # tr) = tcp_connections tr"

fun udp_sends :: "effect list \<Rightarrow> (bytes \<times> nat \<times> string) list" where
  "udp_sends [] = []"
| "udp_sends (DgramSend b port address # tr) = (b, port, address) # udp_sends tr"
| "udp_sends (_ # tr) = udp_sends tr"

fun tcp_writes :: "effect list \<Rightarrow> bytes list" where
  "tcp_writes [] = []"
| "tcp_writes (SocketWrite b # tr) = b # tcp_writes tr"
| "tcp_writes (_ # tr) = tcp_writes tr"

fun timeouts :: "effect list \<Rightarrow> js_value list" where
  "timeouts [] = []"
| "timeouts (SetTimeout t # tr) = t # timeouts tr"
| "timeouts (_ # tr) = timeouts tr"

definition serializations :: "effect list \<Rightarrow> nat" where
  "serializations tr = length (filter (\<lambda>x. x = PacketSerialize) tr)"

section \<open>A small codec and environments for concrete runs\<close>

text \<open>
  A stand-in for the codec, used only where a statement is evaluated on a concrete
  run: a message is its id, a flags byte (1 for truncated) and an rcode byte;
  anything shorter does not decode.
\<close>

definition example_parse :: "bytes \<Rightarrow> error + nat packet" where
  "example_parse b =
     (case b of
        i # t # r # _ \<Rightarrow>
          Inr \<lparr>pkt_id = unat i, truncated = (t = 1), rcode = unat r,
               answer = [unat r], authority = [], additional = []\<rparr>
      | _ \<Rightarrow> Inl (Error ''decode''))"

definition example_serialize :: "nat packet \<Rightarrow> bytes" where
  "example_serialize p = [of_nat (pkt_id p), if truncated p then 1 else 0, of_nat (rcode p)]"

definition example_query :: "nat packet" where
  "example_query =
     \<lparr>pkt_id = 7, truncated = False, rcode = 0, answer = [], authority = [], additional = []\<rparr>"

definition example_res :: "nat packet" where
  "example_res =
     \<lparr>pkt_id = 7, truncated = False, rcode = 0, answer = [40], authority = [41], additional = []\<rparr>"

text \<open>A complete answer over UDP.\<close>

definition env_udp_ok :: env where
  "env_udp_ok =
     \<lparr>lookup_result = Inr (''192.0.2.1'', 4),
      udp_events = [UdpSendCallback None, UdpMessage [7, 0, 3]],
      tcp_events = []\<rparr>"

text \<open>
  A truncated answer over UDP, then the whole answer over TCP, its frame in three
  chunks.
\<close>

definition env_tcp_ok :: env where
  "env_tcp_ok =
     \<lparr>lookup_result = Inr (''192.0.2.1'', 4),
      udp_events = [UdpSendCallback None, UdpMessage [7, 1, 0]],
      tcp_events = [TcpConnect, TcpData [0], TcpData [3, 7], TcpData [0, 5]]\<rparr>"

text \<open>No answer before the timer.\<close>

definition env_udp_timeout :: env where
  "env_udp_timeout =
     \<lparr>lookup_result = Inr (''192.0.2.1'', 4),
      udp_events = [UdpSendCallback None, UdpTimeout],
      tcp_events = []\<rparr>"

text \<open>A datagram of one byte, then a complete answer.\<close>

definition env_udp_malformed :: env where
  "env_udp_malformed =
     \<lparr>lookup_result = Inr (''192.0.2.1'', 4),
      udp_events = [UdpSendCallback None, UdpMessage [9], UdpMessage [7, 0, 3]],
      tcp_events = []\<rparr>"

section \<open>Lemmas on traces\<close>

lemma push_all_append: "push_all target xs = target @ xs"
  unfolding push_all_def by (induction xs arbitrary: target) auto

lemma timeouts_append: "timeouts (a @ b) = timeouts a @ timeouts b"
  by (induction a rule: timeouts.induct) auto

lemma tcp_connections_append: "tcp_connections (a @ b) = tcp_connections a @ tcp_connections b"
  by (induction a rule: tcp_connections.induct) auto

lemma udp_sends_append: "udp_sends (a @ b) = udp_sends a @ udp_sends b"
  by (induction a rule: udp_sends.induct) auto

lemma tcp_writes_append: "tcp_writes (a @ b) = tcp_writes a @ tcp_writes b"
  by (induction a rule: tcp_writes.induct) auto

lemma serializations_append: "serializations (a @ b) = serializations a + serializations b"
  by (simp add: serializations_def)

lemma serializations_Nil: "serializations [] = 0"
  by (simp add: serializations_def)

lemma serializations_Cons:
  "serializations (x # tr) = (if x = PacketSerialize then 1 else 0) + serializations tr"
  by (simp add: serializations_def)

text \<open>The three waits only clear timers and close or end sockets.\<close>

lemma udp_wait_effects:
  "set (snd (udp_wait parse rid evs)) \<subseteq> {ClearTimeout, DgramClose}"
proof (induction parse rid evs rule: udp_wait.induct)
  case (5 parse requestId data evs)
  then show ?case
    by (auto simp: udp_on_message_def split: sum.splits if_splits)
qed auto

lemma getTcpSocket_wait_effects:
  "set (snd (getTcpSocket_wait parse st evs)) \<subseteq> {SocketEnd}"
proof (induction parse st evs rule: getTcpSocket_wait.induct)
  case (6 parse st b evs)
  then show ?case
    by (auto split: prod.splits data_result.splits)
qed auto

lemma tcp_wait_effects:
  "set (snd (tcp_wait parse pid st evs)) \<subseteq> {ClearTimeout, SocketEnd}"
proof (induction parse pid st evs rule: tcp_wait.induct)
  case (5 parse packet_id st e evs)
  then show ?case by (auto split: prod.splits)
next
  case (6 parse packet_id st b evs)
  obtain st' r where step: "tcp_on_data parse st b = (st', r)"
    by (cases "tcp_on_data parse st b")
  show ?case
  proof (cases r)
    case NoPacket
    with step "6.IH"(1) [OF step [symmetric]] show ?thesis by simp
  next
    case (EmitPacket response)
    with step "6.IH"(2) [OF step [symmetric]] show ?thesis by simp
  next
    case (InvalidPacket e)
    with step "6.IH"(3) [OF step [symmetric]] show ?thesis by (auto split: prod.splits)
  qed
qed auto

text \<open>Such effects are no connection, send, write, timer or serialization.\<close>

lemma quiet_trace:
  assumes "set tr \<subseteq> {ClearTimeout, DgramClose, SocketEnd}"
  shows "tcp_connections tr = []" and "udp_sends tr = []" and "tcp_writes tr = []"
    and "timeouts tr = []" and "serializations tr = 0"
  using assms by (induction tr; auto simp: serializations_def)+

lemma udp_wait_quiet:
  "set (snd (udp_wait parse rid evs)) \<subseteq> {ClearTimeout, DgramClose, SocketEnd}"
  using udp_wait_effects [of parse rid evs] by auto

lemma getTcpSocket_wait_quiet:
  "set (snd (getTcpSocket_wait parse st evs)) \<subseteq> {ClearTimeout, DgramClose, SocketEnd}"
  using getTcpSocket_wait_effects [of parse st evs] by auto

lemma tcp_wait_quiet:
  "set (snd (tcp_wait parse pid st evs)) \<subseteq> {ClearTimeout, DgramClose, SocketEnd}"
  using tcp_wait_effects [of parse pid st evs] by auto

lemmas wait_quiet =
  quiet_trace [OF udp_wait_quiet] quiet_trace [OF getTcpSocket_wait_quiet]
  quiet_trace [OF tcp_wait_quiet]

text \<open>The traces of the two attempts and of the client, by the way the exchange went.\<close>

lemma udp_attempt_trace:
  "udp_attempt parse serialize host port packet timeout address family evs =
     (fst (udp_wait parse (pkt_id packet) evs),
      [DnsLookup host, PacketSerialize, SetTimeout timeout, DgramCreateSocket family,
       DgramSend (serialize packet) port address] @ snd (udp_wait parse (pkt_id packet) evs))"
  by (simp add: udp_attempt_def split: prod.splits)

lemma tcp_attempt_trace:
  "snd (tcp_attempt parse serialize port packet timeout address evs) =
     NetCreateConnection port address # snd (getTcpSocket_wait parse reassembly_init evs) @
       (case fst (getTcpSocket_wait parse reassembly_init evs) of
          Resolved (st, evs') \<Rightarrow>
            [SetTimeout timeout, PacketSerialize,
             SocketWrite (length_prefix (length (serialize packet))),
             SocketWrite (serialize packet)] @ snd (tcp_wait parse (pkt_id packet) st evs')
        | _ \<Rightarrow> [])"
  by (simp add: tcp_attempt_def getTcpSocket_def Let_def split: prod.splits outcome.splits)

lemma tcp_attempt_connections:
  "tcp_connections (snd (tcp_attempt parse serialize port packet timeout address evs)) =
     [(port, address)]"
  by (simp add: tcp_attempt_trace tcp_connections_append wait_quiet
      split: outcome.splits prod.splits)

lemma tcp_attempt_udp_sends:
  "udp_sends (snd (tcp_attempt parse serialize port packet timeout address evs)) = []"
  by (simp add: tcp_attempt_trace udp_sends_append wait_quiet
      split: outcome.splits prod.splits)

lemma tcp_attempt_timeouts:
  "set (timeouts (snd (tcp_attempt parse serialize port packet timeout address evs)))
     \<subseteq> {timeout}"
  by (simp add: tcp_attempt_trace timeouts_append wait_quiet
      split: outcome.splits prod.splits)

lemma client_lookup_failed:
  "lookup_result e = Inl err \<Longrightarrow>
   client parse serialize host port packet options e = (Rejected err, [DnsLookup host])"
  by (simp add: client_def)

lemma client_udp_unresolved:
  assumes "lookup_result e = Inr (address, family)"
    and "\<And>response. fst (udp_wait parse (pkt_id packet) (udp_events e)) \<noteq> Resolved response"
  shows "client parse serialize host port packet options e =
     udp_attempt parse serialize host port packet (client_timeout options) address family
       (udp_events e)"
  using assms
  by (auto simp: client_def udp_attempt_trace Let_def split: outcome.splits prod.splits)

lemma client_udp_complete:
  assumes "lookup_result e = Inr (address, family)"
    and "fst (udp_wait parse (pkt_id packet) (udp_events e)) = Resolved response"
    and "\<not> truncated response"
  shows "client parse serialize host port packet options e =
     udp_attempt parse serialize host port packet (client_timeout options) address family
       (udp_events e)"
  using assms
  by (auto simp: client_def udp_attempt_trace Let_def split: outcome.splits prod.splits)

lemma client_udp_truncated:
  assumes "lookup_result e = Inr (address, family)"
    and "fst (udp_wait parse (pkt_id packet) (udp_events e)) = Resolved response"
    and "truncated response"
  shows "client parse serialize host port packet options e =
     (fst (tcp_attempt parse serialize port packet (client_timeout options) address
             (tcp_events e)),
      snd (udp_attempt parse serialize host port packet (client_timeout options) address
             family (udp_events e)) @
      snd (tcp_attempt parse serialize port packet (client_timeout options) address
             (tcp_events e)))"
  using assms
  by (auto simp: client_def udp_attempt_trace Let_def split: outcome.splits prod.splits)

lemma tcp_attempt_writes:
  "tcp_writes (snd (tcp_attempt parse serialize port packet timeout address evs)) =
     (case fst (getTcpSocket_wait parse reassembly_init evs) of
        Resolved x \<Rightarrow> [length_prefix (length (serialize packet)), serialize packet]
      | _ \<Rightarrow> [])"
  by (simp add: tcp_attempt_trace tcp_writes_append wait_quiet
      split: outcome.splits prod.splits)

lemma tcp_attempt_serializations:
  "serializations (snd (tcp_attempt parse serialize port packet timeout address evs)) =
     (case fst (getTcpSocket_wait parse reassembly_init evs) of
        Resolved x \<Rightarrow> 1
      | _ \<Rightarrow> 0)"
  by (simp add: tcp_attempt_trace serializations_append serializations_Cons serializations_Nil
      wait_quiet split: outcome.splits prod.splits)

text \<open>Events that leave the UDP promise pending change nothing for the events after them.\<close>

lemma udp_wait_pending_append:
  "fst (udp_wait parse rid xs) = Pending \<Longrightarrow>
   udp_wait parse rid (xs @ ys) = udp_wait parse rid ys"
proof (induction parse rid xs rule: udp_wait.induct)
  case (5 parse requestId data evs)
  then show ?case
    by (auto simp: udp_on_message_def split: sum.splits if_splits)
qed simp_all

section \<open>Lemmas on framing\<close>

text \<open>The two bytes of the prefix, and what \<open>readUInt16BE\<close> reads from them.\<close>

lemma and_255: "(n::nat) AND 255 = n mod 256"
proof -
  have "n AND mask 8 = n mod 2 ^ 8" by (simp only: flip: take_bit_eq_mask take_bit_eq_mod)
  then show ?thesis by (simp add: mask_eq_exp_minus_1)
qed

lemma and_ff00: "drop_bit 8 ((n::nat) AND 65280) = (n div 256) mod 256"
proof -
  have "(65280::nat) = push_bit 8 255" by (simp add: push_bit_eq_mult)
  then have "drop_bit 8 (n AND 65280) = drop_bit 8 n AND 255"
    by (simp add: drop_bit_and drop_bit_push_bit del: push_bit_numeral)
  then show ?thesis by (simp add: and_255 drop_bit_eq_div)
qed

lemma length_prefix_eq:
  "length_prefix n = [of_nat ((n div 256) mod 256), of_nat (n mod 256)]"
  unfolding length_prefix_def and_ff00 and_255 by (rule refl)

lemma readUInt16BE_length_prefix:
  assumes "n < 65536"
  shows "readUInt16BE (length_prefix n @ m) = n"
proof -
  have "n div 256 < 256" using assms by simp
  then show ?thesis
    by (simp add: readUInt16BE_def length_prefix_eq unat_of_nat)
qed

lemma length_length_prefix: "length (length_prefix n) = 2"
  by (simp add: length_prefix_def)


text \<open>
  One chunk of a frame: while the frame is incomplete nothing is handed on and the
  listener keeps receiving; the chunk that completes the frame hands on its bytes.
\<close>

lemma receiving_init: "receiving m reassembly_init []"
  by (simp add: receiving_def reassembly_init_def)

lemma length_tcp_frame: "length (tcp_frame m) = length m + 2"
  by (simp add: tcp_frame_def length_length_prefix)

lemma readUInt16BE_prefix:
  assumes "buf @ rest = tcp_frame m" and "2 \<le> length buf" and "length m < 65536"
  shows "readUInt16BE buf = length m"
proof -
  have "buf \<noteq> []" and "1 < length buf"
    using assms(2) by auto
  then have "readUInt16BE buf = readUInt16BE (buf @ rest)"
    by (simp add: readUInt16BE_def nth_append)
  also have "\<dots> = length m"
    using assms(1,3) by (simp add: tcp_frame_def readUInt16BE_length_prefix)
  finally show ?thesis .
qed

lemma receiving_buffer:
  "receiving m st pre \<Longrightarrow> (case buffer st of Some old \<Rightarrow> old @ b | None \<Rightarrow> b) = pre @ b"
  by (auto simp: receiving_def split: option.splits)

lemma tcp_on_data_partial:
  assumes inv: "receiving m st pre"
    and fr: "pre @ b @ rest = tcp_frame m"
    and rest: "rest \<noteq> []"
    and len: "length m < 65536"
  shows "\<exists>st'. tcp_on_data parse st b = (st', NoPacket) \<and> receiving m st' (pre @ b)"
proof -
  have short: "length (pre @ b) < length m + 2"
    using fr rest length_tcp_frame [of m]
    by (metis append.assoc length_append length_greater_0_conv less_add_same_cancel1)
  show ?thesis
  proof (cases "length (pre @ b) < 2")
    case True
    then have "length pre < 2" by simp
    with inv True show ?thesis
      by (simp add: tcp_on_data_def receiving_buffer [OF inv] receiving_def not_packetLength_def)
  next
    case False
    have rd: "readUInt16BE (pre @ b) = length m"
      using readUInt16BE_prefix [of "pre @ b" rest m] fr False len by simp
    show ?thesis
    proof (cases "length pre < 2")
      case True
      with inv False rd short show ?thesis
        by (simp add: tcp_on_data_def receiving_buffer [OF inv] receiving_def
            not_packetLength_def)
    next
      case pre2: False
      with short have "length m \<noteq> 0" by (cases m) simp_all
      with inv pre2 False short show ?thesis
        by (simp add: tcp_on_data_def receiving_buffer [OF inv] receiving_def
            not_packetLength_def)
    qed
  qed
qed

lemma tcp_on_data_complete:
  assumes inv: "receiving m st pre"
    and fr: "pre @ b = tcp_frame m"
    and b: "b \<noteq> []"
    and len: "length m < 65536"
  shows "snd (tcp_on_data parse st b) = handed_on parse m"
proof -
  have full: "length (pre @ b) = length m + 2"
    using fr length_tcp_frame [of m] by simp
  have pl: "(if not_packetLength (packetLength st) then readUInt16BE (pre @ b)
             else the (packetLength st)) = length m"
  proof (cases "length pre < 2")
    case True
    with inv have "packetLength st = None" by (simp add: receiving_def)
    moreover have "readUInt16BE (pre @ b) = length m"
      using readUInt16BE_prefix [of "pre @ b" "[]" m] fr full len by simp
    ultimately show ?thesis by (simp add: not_packetLength_def)
  next
    case False
    with inv have "packetLength st = Some (length m)" by (simp add: receiving_def)
    moreover from False full b have "length m \<noteq> 0" by (cases b) auto
    ultimately show ?thesis by (simp add: not_packetLength_def)
  qed
  have sl: "slice 2 (length m + 2) (pre @ b) = m"
    unfolding fr by (simp add: slice_def tcp_frame_def length_length_prefix)
  have "\<not> (not_packetLength (packetLength st) \<and> length (pre @ b) < 2)"
    using full by simp
  then show ?thesis
    using pl sl full
    by (simp add: tcp_on_data_def receiving_buffer [OF inv] handed_on_def Let_def
        split: sum.splits)
qed

lemma tcp_feed_receiving:
  assumes "receiving m st pre"
    and "pre @ concat chunks = tcp_frame m"
    and "[] \<notin> set chunks"
    and "chunks \<noteq> []"
    and "length m < 65536"
  shows "tcp_feed parse st chunks =
     replicate (length chunks - 1) NoPacket @ [handed_on parse m]"
  using assms
proof (induction chunks arbitrary: st pre)
  case Nil
  then show ?case by simp
next
  case (Cons b bs)
  have b: "b \<noteq> []" using Cons.prems(3) by auto
  show ?case
  proof (cases bs)
    case Nil
    with Cons.prems have "pre @ b = tcp_frame m" by simp
    from tcp_on_data_complete [OF Cons.prems(1) this b Cons.prems(5), of parse] Nil
    show ?thesis by (auto split: prod.splits)
  next
    case (Cons c cs)
    then have rest: "concat bs \<noteq> []" using Cons.prems(3) by auto
    have fr: "pre @ b @ concat bs = tcp_frame m" using Cons.prems(2) by simp
    from tcp_on_data_partial [OF Cons.prems(1) fr rest Cons.prems(5), of parse]
    obtain st' where st': "tcp_on_data parse st b = (st', NoPacket)"
      and inv': "receiving m st' (pre @ b)" by blast
    have "tcp_feed parse st' bs = replicate (length bs - 1) NoPacket @ [handed_on parse m]"
      using Cons.IH [OF inv'] fr Cons.prems(3,5) Cons by simp
    with st' Cons show ?thesis by simp
  qed
qed

text \<open>
  The first frame on a connection, in any split into chunks that are not empty: the
  message is handed on whole, once, by the last chunk.
\<close>

lemma tcp_framing_single_message:
  assumes "concat chunks = tcp_frame m"
    and "[] \<notin> set chunks"
    and "length m \<le> 65535"
  shows "tcp_feed parse reassembly_init chunks =
     replicate (length chunks - 1) NoPacket @ [handed_on parse m]"
proof -
  have "chunks \<noteq> []" using assms(1) length_tcp_frame [of m] by auto
  with assms show ?thesis
    by (intro tcp_feed_receiving [OF receiving_init]) simp_all
qed

text \<open>
  The same frame seen from the TCP attempt: when its message decodes to a packet with
  the id of the request, the last chunk resolves the promise.
\<close>

lemma tcp_wait_receiving:
  assumes "receiving m st pre"
    and "pre @ concat chunks = tcp_frame m"
    and "[] \<notin> set chunks"
    and "chunks \<noteq> []"
    and "length m < 65536"
    and "parse m = Inr response"
    and "pkt_id response = pid"
  shows "tcp_wait parse pid st (map TcpData chunks @ after) = (Resolved response, [ClearTimeout])"
  using assms
proof (induction chunks arbitrary: st pre)
  case Nil
  then show ?case by simp
next
  case (Cons b bs)
  have b: "b \<noteq> []" using Cons.prems(3) by auto
  show ?case
  proof (cases bs)
    case Nil
    with Cons.prems have "pre @ b = tcp_frame m" by simp
    from tcp_on_data_complete [OF Cons.prems(1) this b Cons.prems(5), of parse]
    have "snd (tcp_on_data parse st b) = EmitPacket response"
      using Cons.prems(6) by (simp add: handed_on_def)
    then obtain st' where "tcp_on_data parse st b = (st', EmitPacket response)"
      by (cases "tcp_on_data parse st b") simp
    with Cons.prems(7) show ?thesis by simp
  next
    case (Cons c cs)
    then have rest: "concat bs \<noteq> []" using Cons.prems(3) by auto
    have fr: "pre @ b @ concat bs = tcp_frame m" using Cons.prems(2) by simp
    from tcp_on_data_partial [OF Cons.prems(1) fr rest Cons.prems(5), of parse]
    obtain st' where st': "tcp_on_data parse st b = (st', NoPacket)"
      and inv': "receiving m st' (pre @ b)" by blast
    have "tcp_wait parse pid st' (map TcpData bs @ after) = (Resolved response, [ClearTimeout])"
      using Cons.IH [OF inv'] fr Cons.prems(3,5,6,7) Cons by simp
    with st' show ?thesis by simp
  qed
qed

section \<open>The claims on client.js\<close>

text \<open>
  C1.  When the UDP attempt resolves with a response whose \<^verbatim>\<open>truncated\<close> flag is false,
  the client returns that response and its trace holds no TCP connection.  When the
  flag is true, the trace holds exactly one TCP connection, to the address the lookup
  gave and the port of the call, and these are the address and the port of the one
  UDP send.
\<close>

theorem client_tcp_only_when_truncated:
  assumes "lookup_result e = Inr (address, family)"
    and "fst (udp_wait parse (pkt_id packet) (udp_events e)) = Resolved response"
  shows "(\<not> truncated response \<longrightarrow>
            fst (client parse serialize host port packet options e) = Resolved response
          \<and> tcp_connections (snd (client parse serialize host port packet options e)) = [])
       \<and> (truncated response \<longrightarrow>
            tcp_connections (snd (client parse serialize host port packet options e)) =
              [(port, address)]
          \<and> udp_sends (snd (client parse serialize host port packet options e)) =
              [(serialize packet, port, address)])"
proof (cases "truncated response")
  case False
  with assms show ?thesis
    by (simp add: client_udp_complete udp_attempt_trace wait_quiet)
next
  case True
  with assms show ?thesis
    by (simp add: client_udp_truncated udp_attempt_trace wait_quiet tcp_connections_append
        udp_sends_append tcp_attempt_connections tcp_attempt_udp_sends)
qed

text \<open>The theorem at the two example environments: a truncated and a complete answer.\<close>

theorem client_tcp_only_when_truncated_witness:
  "lookup_result env_tcp_ok = Inr (''192.0.2.1'', 4)
   \<and> fst (udp_wait example_parse (pkt_id example_query) (udp_events env_tcp_ok)) =
       Resolved \<lparr>pkt_id = 7, truncated = True, rcode = 0, answer = [0], authority = [],
                 additional = []\<rparr>
   \<and> tcp_connections
        (snd (client example_parse example_serialize ''ns'' 53 example_query OptionsUndefined
           env_tcp_ok)) = [(53, ''192.0.2.1'')]
   \<and> udp_sends
        (snd (client example_parse example_serialize ''ns'' 53 example_query OptionsUndefined
           env_tcp_ok)) = [([7, 0, 0], 53, ''192.0.2.1'')]
   \<and> lookup_result env_udp_ok = Inr (''192.0.2.1'', 4)
   \<and> fst (udp_wait example_parse (pkt_id example_query) (udp_events env_udp_ok)) =
       Resolved \<lparr>pkt_id = 7, truncated = False, rcode = 3, answer = [3], authority = [],
                 additional = []\<rparr>
   \<and> fst (client example_parse example_serialize ''ns'' 53 example_query OptionsUndefined
          env_udp_ok) =
       Resolved \<lparr>pkt_id = 7, truncated = False, rcode = 3, answer = [3], authority = [],
                 additional = []\<rparr>
   \<and> tcp_connections
        (snd (client example_parse example_serialize ''ns'' 53 example_query OptionsUndefined
           env_udp_ok)) = []"
proof -
  have l1: "lookup_result env_tcp_ok = Inr (''192.0.2.1'', 4)"
    by (simp add: env_tcp_ok_def)
  have u1: "fst (udp_wait example_parse (pkt_id example_query) (udp_events env_tcp_ok)) =
       Resolved \<lparr>pkt_id = 7, truncated = True, rcode = 0, answer = [0], authority = [],
                 additional = []\<rparr>"
    by (simp add: env_tcp_ok_def example_query_def example_parse_def udp_on_message_def)
  have l2: "lookup_result env_udp_ok = Inr (''192.0.2.1'', 4)"
    by (simp add: env_udp_ok_def)
  have u2: "fst (udp_wait example_parse (pkt_id example_query) (udp_events env_udp_ok)) =
       Resolved \<lparr>pkt_id = 7, truncated = False, rcode = 3, answer = [3], authority = [],
                 additional = []\<rparr>"
    by (simp add: env_udp_ok_def example_query_def example_parse_def udp_on_message_def)
  have s: "example_serialize example_query = [7, 0, 0]"
    by (simp add: example_serialize_def example_query_def)
  show ?thesis
    using client_tcp_only_when_truncated [OF l1 u1, of example_serialize "''ns''" 53 OptionsUndefined]
      client_tcp_only_when_truncated [OF l2 u2, of example_serialize "''ns''" 53 OptionsUndefined]
      l1 u1 l2 u2 s
    by simp
qed

text \<open>
  \<^verbatim>\<open>Number.isInteger\<close> holds of the integers of either sign and of nothing else.
\<close>

lemma Number_isInteger_iff:
  "Number_isInteger v \<longleftrightarrow> (\<exists>n::int. v = JsNumber (Finite (of_int n)))"
proof (cases v)
  case (JsNumber x)
  then show ?thesis
  proof (cases x)
    case (Finite q)
    with JsNumber show ?thesis by (auto intro: exI [of _ "\<lfloor>q\<rfloor>"])
  qed auto
qed auto

text \<open>
  C8, as the specification has it, fails: the option 0 is no positive integer, and the
  client takes it as the timeout, where the specification gives 3000.
\<close>

theorem client_timeout_not_positive_counterexample:
  "client_timeout (OptionsObject (JsNumber (Finite 0))) = JsNumber (Finite 0)
   \<and> spec_timeout (OptionsObject (JsNumber (Finite 0))) = JsNumber (Finite 3000)
   \<and> client_timeout (OptionsObject (JsNumber (Finite 0)))
       \<noteq> spec_timeout (OptionsObject (JsNumber (Finite 0)))"
  by (simp add: client_timeout_def spec_timeout_def options_timeout_def)


text \<open>
  C8, amended.  The timeout is the option whenever the option is an integer, of either
  sign, and 3000 when the option is absent or is no integer.
\<close>

theorem client_timeout_integer_or_default:
  "(options_timeout options = JsNumber (Finite (of_int n)) \<longrightarrow>
      client_timeout options = JsNumber (Finite (of_int n)))
   \<and> ((\<forall>m::int. options_timeout options \<noteq> JsNumber (Finite (of_int m))) \<longrightarrow>
      client_timeout options = JsNumber (Finite 3000))"
  by (auto simp: client_timeout_def Number_isInteger_iff)

text \<open>The amended C8 at the option \<open>- 5\<close>.\<close>

theorem client_timeout_integer_or_default_witness:
  "options_timeout (OptionsObject (JsNumber (Finite (of_int (- 5))))) =
     JsNumber (Finite (of_int (- 5)))
   \<and> client_timeout (OptionsObject (JsNumber (Finite (of_int (- 5))))) =
     JsNumber (Finite (of_int (- 5)))"
  using client_timeout_integer_or_default
    [of "OptionsObject (JsNumber (Finite (of_int (- 5))))" "- 5"]
  by (simp add: options_timeout_def)

text \<open>
  C2 fails on the code.  A datagram that \<^verbatim>\<open>Packet.parse\<close> rejects is not dropped: the
  listener of the UDP socket has no \<^verbatim>\<open>try\<close>, so the exception leaves it uncaught and
  the exchange does not go on to the datagrams and the timer that would follow.  Here
  \<open>before\<close> are events that leave the promise pending and \<open>data\<close> is the malformed
  datagram.
\<close>

theorem udp_malformed_datagram_uncaught:
  assumes "lookup_result e = Inr (address, family)"
    and "udp_events e = before @ UdpMessage data # after"
    and "fst (udp_wait parse (pkt_id packet) before) = Pending"
    and "parse data = Inl err"
  shows "fst (client parse serialize host port packet options e) = Uncaught err"
proof -
  have "udp_wait parse (pkt_id packet) (udp_events e) = (Uncaught err, [])"
    using assms(2,3,4) by (simp add: udp_wait_pending_append udp_on_message_def)
  then show ?thesis
    using assms(1) by (simp add: client_udp_unresolved udp_attempt_trace)
qed

text \<open>
  At the example environment: a datagram of one byte, then a well-formed answer that
  is never looked at.
\<close>

theorem udp_malformed_datagram_uncaught_witness:
  "lookup_result env_udp_malformed = Inr (''192.0.2.1'', 4)
   \<and> udp_events env_udp_malformed =
       [UdpSendCallback None] @ UdpMessage [9] # [UdpMessage [7, 0, 3]]
   \<and> fst (udp_wait example_parse (pkt_id example_query) [UdpSendCallback None]) = Pending
   \<and> example_parse [9] = Inl (Error ''decode'')
   \<and> example_parse [7, 0, 3] =
       Inr \<lparr>pkt_id = 7, truncated = False, rcode = 3, answer = [3], authority = [],
            additional = []\<rparr>
   \<and> fst (client example_parse example_serialize ''ns'' 53 example_query OptionsUndefined
          env_udp_malformed) = Uncaught (Error ''decode'')"
proof -
  have l: "lookup_result env_udp_malformed = Inr (''192.0.2.1'', 4)"
    by (simp add: env_udp_malformed_def)
  have ev: "udp_events env_udp_malformed =
       [UdpSendCallback None] @ UdpMessage [9] # [UdpMessage [7, 0, 3]]"
    by (simp add: env_udp_malformed_def)
  have p: "fst (udp_wait example_parse (pkt_id example_query) [UdpSendCallback None]) = Pending"
    by simp
  have d: "example_parse [9] = Inl (Error ''decode'')"
    by (simp add: example_parse_def)
  have ok: "example_parse [7, 0, 3] =
       Inr \<lparr>pkt_id = 7, truncated = False, rcode = 3, answer = [3], authority = [],
            additional = []\<rparr>"
    by (simp add: example_parse_def)
  from udp_malformed_datagram_uncaught
    [OF l ev p d, of example_serialize "''ns''" 53 OptionsUndefined] l ev p d ok
  show ?thesis by simp
qed

text \<open>
  The paths that do close: a UDP attempt that settles has closed its socket, and a TCP
  wait that rejects has ended its connection.
\<close>

lemma udp_wait_settled_closes:
  assumes "fst (udp_wait parse rid evs) = Resolved r \<or> fst (udp_wait parse rid evs) = Rejected err"
  shows "DgramClose \<in> set (snd (udp_wait parse rid evs))"
  using assms
proof (induction parse rid evs rule: udp_wait.induct)
  case (5 parse requestId data evs)
  then show ?case
    by (auto simp: udp_on_message_def split: sum.splits if_splits)
qed auto

lemma tcp_wait_rejected_ends:
  assumes "fst (tcp_wait parse pid st evs) = Rejected err"
  shows "SocketEnd \<in> set (snd (tcp_wait parse pid st evs))"
  using assms
proof (induction parse pid st evs rule: tcp_wait.induct)
  case (5 parse packet_id st e evs)
  then show ?case by (auto split: prod.splits)
next
  case (6 parse packet_id st b evs)
  obtain st' r where step: "tcp_on_data parse st b = (st', r)"
    by (cases "tcp_on_data parse st b")
  show ?case
  proof (cases r)
    case NoPacket
    with step "6.IH"(1) [OF step [symmetric]] "6.prems" show ?thesis by simp
  next
    case (EmitPacket response)
    with step "6.IH"(2) [OF step [symmetric]] "6.prems" show ?thesis
      by (cases "pkt_id response = packet_id") simp_all
  next
    case (InvalidPacket e)
    with step show ?thesis by (auto split: prod.splits)
  qed
qed auto

text \<open>
  C3 fails on the code.  On the path of a successful TCP attempt (a truncated UDP
  answer, a connection, and a frame whose message decodes to a packet with the id of
  the request) the exchange resolves, a connection was created, and nothing ever ends
  or closes it: the listener of lines 146 to 153 clears the timer and resolves, no more.
\<close>

theorem tcp_success_leaves_connection_open:
  assumes "lookup_result e = Inr (address, family)"
    and "fst (udp_wait parse (pkt_id packet) (udp_events e)) = Resolved udp_response"
    and "truncated udp_response"
    and "tcp_events e = TcpConnect # map TcpData chunks @ after"
    and "concat chunks = tcp_frame m"
    and "[] \<notin> set chunks"
    and "length m \<le> 65535"
    and "parse m = Inr response"
    and "pkt_id response = pkt_id packet"
  shows "fst (client parse serialize host port packet options e) = Resolved response
       \<and> NetCreateConnection port address \<in>
           set (snd (client parse serialize host port packet options e))
       \<and> SocketEnd \<notin> set (snd (client parse serialize host port packet options e))"
proof -
  have ne: "chunks \<noteq> []" using assms(5) length_tcp_frame [of m] by auto
  have len: "length m < 65536" using assms(7) by simp
  have w: "tcp_wait parse (pkt_id packet) reassembly_init (map TcpData chunks @ after) =
     (Resolved response, [ClearTimeout])"
    using tcp_wait_receiving
      [where m = m and pre = "[]" and chunks = chunks and st = reassembly_init
        and parse = parse and response = response and pid = "pkt_id packet" and after = after]
      receiving_init [of m] assms(5,6,8,9) ne len
    by simp
  have t: "tcp_attempt parse serialize port packet (client_timeout options) address
      (tcp_events e) =
     (Resolved response,
      [NetCreateConnection port address, SetTimeout (client_timeout options), PacketSerialize,
       SocketWrite (length_prefix (length (serialize packet))), SocketWrite (serialize packet),
       ClearTimeout])"
    using w assms(4) by (simp add: tcp_attempt_def getTcpSocket_def Let_def)
  have u: "SocketEnd \<notin> set (snd (udp_wait parse (pkt_id packet) (udp_events e)))"
    using udp_wait_effects [of parse "pkt_id packet" "udp_events e"] by auto
  show ?thesis
    using assms(1,2,3) t u
    by (simp add: client_udp_truncated udp_attempt_trace)
qed


text \<open>At the example environment, with the frame in three chunks.\<close>

theorem tcp_success_leaves_connection_open_witness:
  "lookup_result env_tcp_ok = Inr (''192.0.2.1'', 4)
   \<and> fst (udp_wait example_parse (pkt_id example_query) (udp_events env_tcp_ok)) =
       Resolved \<lparr>pkt_id = 7, truncated = True, rcode = 0, answer = [0], authority = [],
                 additional = []\<rparr>
   \<and> tcp_events env_tcp_ok = TcpConnect # map TcpData [[0], [3, 7], [0, 5]] @ []
   \<and> concat [[0], [3, 7], [0, 5]] = tcp_frame [7, 0, 5]
   \<and> example_parse [7, 0, 5] =
       Inr \<lparr>pkt_id = 7, truncated = False, rcode = 5, answer = [5], authority = [],
            additional = []\<rparr>
   \<and> fst (client example_parse example_serialize ''ns'' 53 example_query OptionsUndefined
          env_tcp_ok) =
       Resolved \<lparr>pkt_id = 7, truncated = False, rcode = 5, answer = [5], authority = [],
                 additional = []\<rparr>
   \<and> NetCreateConnection 53 ''192.0.2.1'' \<in>
       set (snd (client example_parse example_serialize ''ns'' 53 example_query
                   OptionsUndefined env_tcp_ok))
   \<and> SocketEnd \<notin>
       set (snd (client example_parse example_serialize ''ns'' 53 example_query
                   OptionsUndefined env_tcp_ok))"
proof -
  let ?r1 = "\<lparr>pkt_id = 7, truncated = True, rcode = 0, answer = [0::nat], authority = [],
                 additional = []\<rparr>"
  let ?r2 = "\<lparr>pkt_id = 7, truncated = False, rcode = 5, answer = [5::nat], authority = [],
                 additional = []\<rparr>"
  have l: "lookup_result env_tcp_ok = Inr (''192.0.2.1'', 4)"
    by (simp add: env_tcp_ok_def)
  have u: "fst (udp_wait example_parse (pkt_id example_query) (udp_events env_tcp_ok)) =
       Resolved ?r1"
    by (simp add: env_tcp_ok_def example_query_def example_parse_def udp_on_message_def)
  have t: "truncated ?r1" by simp
  have ev: "tcp_events env_tcp_ok = TcpConnect # map TcpData [[0], [3, 7], [0, 5]] @ []"
    by (simp add: env_tcp_ok_def)
  have fr: "concat [[0], [3, 7], [0, 5]] = tcp_frame [7, 0, 5]"
    by (simp add: tcp_frame_def length_prefix_eq)
  have ne: "[] \<notin> set [[0], [3, 7], [0, 5::byte]]" by simp
  have len: "length [7, 0, 5::byte] \<le> 65535" by simp
  have p: "example_parse [7, 0, 5] = Inr ?r2"
    by (simp add: example_parse_def)
  have i: "pkt_id ?r2 = pkt_id example_query"
    by (simp add: example_query_def)
  from tcp_success_leaves_connection_open
    [OF l u t ev fr ne len p i, of example_serialize "''ns''" 53 OptionsUndefined]
    l u ev fr p
  show ?thesis by simp
qed

text \<open>
  C4 fails on the code for the second of two frames.  After a frame the listener keeps
  \<^verbatim>\<open>buffer.slice(packetLength)\<close>, not \<^verbatim>\<open>buffer.slice(packetLength + 2)\<close>: the last two
  bytes of what it has just handed on stay in the buffer and are read as the length of
  the next frame.  The messages 07 00 01 and 09 arrive framed, one chunk each; with a
  codec that accepts every message, the listener hands on 07 00 01 and then 00, not 09.
  (For the first frame on a connection the claim holds in every split:
  \<open>tcp_framing_single_message\<close>.)
\<close>

theorem tcp_framing_second_frame_misread:
  "tcp_feed Inr reassembly_init [tcp_frame [7, 0, 1], tcp_frame [9]] =
     [EmitPacket [7, 0, 1], EmitPacket [0]]"
proof -
  have f1: "tcp_frame [7, 0, 1] = [0, 3, 7, 0, 1]"
    by (simp add: tcp_frame_def length_prefix_eq)
  have f2: "tcp_frame [9] = [0, 1, 9]"
    by (simp add: tcp_frame_def length_prefix_eq)
  have s1: "tcp_on_data Inr reassembly_init [0, 3, 7, 0, 1] =
     (\<lparr>buffer = Some [0, 1], packetLength = None\<rparr>, EmitPacket [7, 0, 1])"
    by (simp add: tcp_on_data_def reassembly_init_def not_packetLength_def readUInt16BE_def
        slice_def slice_from_def)
  have s2: "tcp_on_data Inr \<lparr>buffer = Some [0, 1], packetLength = None\<rparr> [0, 1, 9] =
     (\<lparr>buffer = Some [1, 0, 1, 9], packetLength = None\<rparr>, EmitPacket [0])"
    by (simp add: tcp_on_data_def not_packetLength_def readUInt16BE_def
        slice_def slice_from_def)
  show ?thesis by (simp add: f1 f2 s1 s2)
qed

text \<open>
  C5, as the specification has it, fails: in an exchange that goes on to TCP,
  \<^verbatim>\<open>Packet.serialize\<close> is called twice (lines 101 and 155), not once.
\<close>

theorem client_serializes_twice_counterexample:
  "serializations (snd (client example_parse example_serialize ''ns'' 53 example_query
                          OptionsUndefined env_tcp_ok)) = 2"
proof -
  let ?r = "\<lparr>pkt_id = 7, truncated = True, rcode = 0, answer = [0::nat], authority = [],
             additional = []\<rparr>"
  have l: "lookup_result env_tcp_ok = Inr (''192.0.2.1'', 4)"
    by (simp add: env_tcp_ok_def)
  have u: "fst (udp_wait example_parse (pkt_id example_query) (udp_events env_tcp_ok)) =
     Resolved ?r"
    by (simp add: env_tcp_ok_def example_query_def example_parse_def udp_on_message_def)
  have t: "truncated ?r" by simp
  have g: "fst (getTcpSocket_wait example_parse reassembly_init (tcp_events env_tcp_ok)) =
     Resolved (reassembly_init, [TcpData [0], TcpData [3, 7], TcpData [0, 5]])"
    by (simp add: env_tcp_ok_def)
  show ?thesis
    by (simp add: client_udp_truncated [OF l u t] udp_attempt_trace serializations_append
        serializations_Cons serializations_Nil wait_quiet tcp_attempt_serializations g)
qed


text \<open>
  C5, amended.  In an exchange whose lookup succeeded there is one UDP send, of
  \<open>serialize packet\<close>; the TCP writes, when there are any, are the length prefix and
  \<open>serialize packet\<close> again; and the packet is serialized once when there are no TCP
  writes and twice when there are.
\<close>

theorem client_serializes_per_attempt:
  assumes "lookup_result e = Inr (address, family)"
  shows "udp_sends (snd (client parse serialize host port packet options e)) =
           [(serialize packet, port, address)]
       \<and> (tcp_writes (snd (client parse serialize host port packet options e)) = []
          \<or> tcp_writes (snd (client parse serialize host port packet options e)) =
             [length_prefix (length (serialize packet)), serialize packet])
       \<and> serializations (snd (client parse serialize host port packet options e)) =
           (if tcp_writes (snd (client parse serialize host port packet options e)) = []
            then 1 else 2)"
proof (cases "fst (udp_wait parse (pkt_id packet) (udp_events e))")
  case (Resolved response)
  show ?thesis
  proof (cases "truncated response")
    case True
    show ?thesis
      by (cases "fst (getTcpSocket_wait parse reassembly_init (tcp_events e))")
        (simp_all add: client_udp_truncated [OF assms Resolved True] udp_attempt_trace
          udp_sends_append tcp_writes_append serializations_append wait_quiet
          tcp_attempt_udp_sends tcp_attempt_writes tcp_attempt_serializations
          serializations_Cons serializations_Nil)
  next
    case False
    show ?thesis
      by (simp add: client_udp_complete [OF assms Resolved False] udp_attempt_trace wait_quiet
          serializations_Cons serializations_Nil)
  qed
qed (simp_all add: client_udp_unresolved [OF assms] udp_attempt_trace wait_quiet
    serializations_Cons serializations_Nil)

text \<open>The amended C5 at the example environment that goes on to TCP.\<close>

theorem client_serializes_per_attempt_witness:
  "lookup_result env_tcp_ok = Inr (''192.0.2.1'', 4)
   \<and> udp_sends (snd (client example_parse example_serialize ''ns'' 53 example_query
                       OptionsUndefined env_tcp_ok)) = [([7, 0, 0], 53, ''192.0.2.1'')]
   \<and> tcp_writes (snd (client example_parse example_serialize ''ns'' 53 example_query
                       OptionsUndefined env_tcp_ok)) = [[0, 3], [7, 0, 0]]
   \<and> serializations (snd (client example_parse example_serialize ''ns'' 53 example_query
                       OptionsUndefined env_tcp_ok)) = 2"
proof -
  let ?r = "\<lparr>pkt_id = 7, truncated = True, rcode = 0, answer = [0::nat], authority = [],
             additional = []\<rparr>"
  have l: "lookup_result env_tcp_ok = Inr (''192.0.2.1'', 4)"
    by (simp add: env_tcp_ok_def)
  have u: "fst (udp_wait example_parse (pkt_id example_query) (udp_events env_tcp_ok)) =
     Resolved ?r"
    by (simp add: env_tcp_ok_def example_query_def example_parse_def udp_on_message_def)
  have t: "truncated ?r" by simp
  have g: "fst (getTcpSocket_wait example_parse reassembly_init (tcp_events env_tcp_ok)) =
     Resolved (reassembly_init, [TcpData [0], TcpData [3, 7], TcpData [0, 5]])"
    by (simp add: env_tcp_ok_def)
  have s: "example_serialize example_query = [7, 0, 0]"
    by (simp add: example_serialize_def example_query_def)
  have p: "length_prefix (length [7, 0, 0::byte]) = [0, 3]"
    by (simp add: length_prefix_eq)
  have w: "tcp_writes (snd (client example_parse example_serialize ''ns'' 53 example_query
                       OptionsUndefined env_tcp_ok)) = [[0, 3], [7, 0, 0]]"
    by (simp add: client_udp_truncated [OF l u t] udp_attempt_trace tcp_writes_append
        wait_quiet tcp_attempt_writes g s p del: list.size)
  from client_serializes_per_attempt
    [OF l, of example_parse example_serialize "''ns''" 53 example_query OptionsUndefined]
    l s w
  show ?thesis by simp
qed

section \<open>The claims on index.js\<close>

text \<open>Every timer of an exchange is armed with the timeout of the call.\<close>

lemma client_timeouts:
  "set (timeouts (snd (client parse serialize host port packet options e)))
     \<subseteq> {client_timeout options}"
proof (cases "lookup_result e")
  case (Inl err)
  then show ?thesis by (simp add: client_lookup_failed)
next
  case (Inr af)
  obtain address family where af: "af = (address, family)" by (cases af)
  note lk = Inr [unfolded af]
  show ?thesis
  proof (cases "fst (udp_wait parse (pkt_id packet) (udp_events e))")
    case (Resolved response)
    show ?thesis
    proof (cases "truncated response")
      case True
      with lk Resolved tcp_attempt_timeouts show ?thesis
        by (simp add: client_udp_truncated udp_attempt_trace timeouts_append wait_quiet)
    next
      case False
      with lk Resolved show ?thesis
        by (simp add: client_udp_complete udp_attempt_trace wait_quiet)
    qed
  qed (simp_all add: client_udp_unresolved [OF lk] udp_attempt_trace wait_quiet)
qed

lemma tryForward_timeouts:
  "set (timeouts (snd (tryForward parse serialize envs req i servers)))
     \<subseteq> {JsNumber (Finite 3000)}"
proof (induction servers arbitrary: i)
  case Nil
  then show ?case by simp
next
  case (Cons server rest)
  have c: "set (timeouts (snd (client parse serialize server 53 req OptionsUndefined (envs i))))
     \<subseteq> {JsNumber (Finite 3000)}"
    using client_timeouts [of parse serialize server 53 req OptionsUndefined "envs i"]
    by (simp add: client_timeout_def options_timeout_def)
  obtain r tr where cl: "client parse serialize server 53 req OptionsUndefined (envs i) = (r, tr)"
    by (cases "client parse serialize server 53 req OptionsUndefined (envs i)")
  show ?case
  proof (cases r)
    case (Rejected e)
    with cl c Cons.IH [of "i + 1"] show ?thesis
      by (auto simp: timeouts_append split: prod.splits)
  qed (use cl c in auto)
qed

lemma forward_trace:
  "snd (snd (forward parse serialize forwarders envs req res)) =
     snd (tryForward parse serialize envs req 0 (forwarders_list forwarders))"
  by (simp add: forward_def success_def split: prod.splits outcome.splits)


lemma timeouts_mem: "t \<in> set (timeouts tr) \<longleftrightarrow> SetTimeout t \<in> set tr"
  by (induction tr rule: timeouts.induct) auto

text \<open>
  C9.  Whatever the server list, every timer armed during a run of the middleware is
  armed with 3000 milliseconds: \<open>tryForward\<close> calls the client with \<^verbatim>\<open>undefined\<close> options.
\<close>

theorem forward_timeout_is_default:
  "\<forall>t. SetTimeout t \<in> set (snd (snd (forward parse serialize forwarders envs req res)))
     \<longrightarrow> t = JsNumber (Finite 3000)"
  using tryForward_timeouts [of parse serialize envs req 0 "forwarders_list forwarders"]
  by (auto simp: forward_trace timeouts_mem [symmetric])

text \<open>C9 at one server that never answers.\<close>

theorem forward_timeout_is_default_witness:
  "SetTimeout (JsNumber (Finite 3000)) \<in>
     set (snd (snd (forward example_parse example_serialize (ForwarderString ''ns'')
                     (\<lambda>i. env_udp_timeout) example_query example_res)))
   \<and> snd (snd (forward example_parse example_serialize (ForwarderString ''ns'')
                     (\<lambda>i. env_udp_timeout) example_query example_res)) =
       [DnsLookup ''ns'', PacketSerialize, SetTimeout (JsNumber (Finite 3000)),
        DgramCreateSocket 4, DgramSend [7, 0, 0] 53 ''192.0.2.1'', DgramClose]"
  using forward_timeout_is_default [of example_parse example_serialize "ForwarderString ''ns''"
      "\<lambda>i. env_udp_timeout" example_query example_res]
  by (simp add: forward_def forwarders_list_def client_def udp_attempt_def env_udp_timeout_def
      client_timeout_def options_timeout_def example_serialize_def example_query_def)

text \<open>
  \<open>tryForward\<close> from position \<open>i\<close>: it rejects with its own error when every server
  rejects, and resolves with the result of the first server that does not reject.
\<close>

lemma tryForward_all_rejected:
  assumes "\<forall>j < length servers.
     \<exists>e. fst (client parse serialize (servers ! j) 53 req OptionsUndefined (envs (i + j))) =
       Rejected e"
  shows "fst (tryForward parse serialize envs req i servers) =
     Rejected (Error ''No more servers to try'')"
  using assms
proof (induction servers arbitrary: i)
  case Nil
  then show ?case by simp
next
  case (Cons server rest)
  from Cons.prems obtain e where
    "fst (client parse serialize server 53 req OptionsUndefined (envs i)) = Rejected e"
    by fastforce
  then obtain tr where
    cl: "client parse serialize server 53 req OptionsUndefined (envs i) = (Rejected e, tr)"
    by (cases "client parse serialize server 53 req OptionsUndefined (envs i)") simp
  have "\<forall>j < length rest.
     \<exists>e. fst (client parse serialize (rest ! j) 53 req OptionsUndefined (envs (i + 1 + j))) =
       Rejected e"
  proof (intro allI impI)
    fix j assume "j < length rest"
    then have "Suc j < length (server # rest)" by simp
    from Cons.prems [rule_format, OF this] show
      "\<exists>e. fst (client parse serialize (rest ! j) 53 req OptionsUndefined (envs (i + 1 + j))) =
         Rejected e"
      by simp
  qed
  from Cons.IH [OF this] cl show ?case
    by (auto split: prod.splits)
qed

lemma tryForward_first_resolved:
  assumes "k < length servers"
    and "\<forall>j < k.
     \<exists>e. fst (client parse serialize (servers ! j) 53 req OptionsUndefined (envs (i + j))) =
       Rejected e"
    and "fst (client parse serialize (servers ! k) 53 req OptionsUndefined (envs (i + k))) =
       Resolved result"
  shows "fst (tryForward parse serialize envs req i servers) = Resolved result"
  using assms
proof (induction servers arbitrary: i k)
  case Nil
  then show ?case by simp
next
  case (Cons server rest)
  show ?case
  proof (cases k)
    case 0
    with Cons.prems(3) show ?thesis
      by (cases "client parse serialize server 53 req OptionsUndefined (envs i)") simp
  next
    case (Suc k')
    with Cons.prems(2) obtain e where
      "fst (client parse serialize server 53 req OptionsUndefined (envs i)) = Rejected e"
      by fastforce
    then obtain tr where
      cl: "client parse serialize server 53 req OptionsUndefined (envs i) = (Rejected e, tr)"
      by (cases "client parse serialize server 53 req OptionsUndefined (envs i)") simp
    have k': "k' < length rest" using Cons.prems(1) Suc by simp
    have rej: "\<forall>j < k'.
       \<exists>e. fst (client parse serialize (rest ! j) 53 req OptionsUndefined (envs (i + 1 + j))) =
         Rejected e"
    proof (intro allI impI)
      fix j assume "j < k'"
      then have "Suc j < k" using Suc by simp
      from Cons.prems(2) [rule_format, OF this] show
        "\<exists>e. fst (client parse serialize (rest ! j) 53 req OptionsUndefined (envs (i + 1 + j))) =
           Rejected e"
        by simp
    qed
    have res: "fst (client parse serialize (rest ! k') 53 req OptionsUndefined
        (envs (i + 1 + k'))) = Resolved result"
      using Cons.prems(3) Suc by simp
    from Cons.IH [OF k' rej res] cl show ?thesis
      by (auto split: prod.splits)
  qed
qed

text \<open>
  C6.  When the exchange with every server of the list is rejected, the middleware
  calls \<^verbatim>\<open>next\<close> with the error \<^verbatim>\<open>No more servers to try\<close> and the packet of \<^verbatim>\<open>res\<close> is as
  it was.
\<close>

theorem forward_all_servers_fail:
  assumes "\<forall>j < length (forwarders_list forwarders).
     \<exists>e. fst (client parse serialize (forwarders_list forwarders ! j) 53 req OptionsUndefined
                (envs j)) = Rejected e"
  shows "fst (forward parse serialize forwarders envs req res) = res
       \<and> fst (snd (forward parse serialize forwarders envs req res)) =
           Some (NextError (Error ''No more servers to try''))"
proof -
  have "fst (tryForward parse serialize envs req 0 (forwarders_list forwarders)) =
     Rejected (Error ''No more servers to try'')"
    using assms by (intro tryForward_all_rejected) simp
  then show ?thesis
    by (auto simp: forward_def split: prod.splits outcome.splits)
qed

text \<open>C6 at two servers that both run into the UDP timer.\<close>

theorem forward_all_servers_fail_witness:
  "fst (client example_parse example_serialize ''a'' 53 example_query OptionsUndefined
          env_udp_timeout) = Rejected (Error ''Timeout'')
   \<and> fst (client example_parse example_serialize ''b'' 53 example_query OptionsUndefined
          env_udp_timeout) = Rejected (Error ''Timeout'')
   \<and> fst (forward example_parse example_serialize (ForwarderArray [''a'', ''b''])
            (\<lambda>i. env_udp_timeout) example_query example_res) = example_res
   \<and> fst (snd (forward example_parse example_serialize (ForwarderArray [''a'', ''b''])
            (\<lambda>i. env_udp_timeout) example_query example_res)) =
       Some (NextError (Error ''No more servers to try''))"
proof -
  have c: "fst (client example_parse example_serialize h 53 example_query OptionsUndefined
          env_udp_timeout) = Rejected (Error ''Timeout'')" for h
    by (simp add: client_def udp_attempt_def env_udp_timeout_def)
  have "\<forall>j < length (forwarders_list (ForwarderArray [''a'', ''b''])).
     \<exists>e. fst (client example_parse example_serialize
                (forwarders_list (ForwarderArray [''a'', ''b'']) ! j) 53 example_query
                OptionsUndefined env_udp_timeout) = Rejected e"
    using c by blast
  from forward_all_servers_fail [OF this, of example_res] c show ?thesis
    by simp
qed

text \<open>
  C7.  When the server at position \<open>k\<close> is the first whose exchange is not rejected and
  it resolves with \<open>result\<close>, the packet of \<^verbatim>\<open>res\<close> gets the rcode of \<open>result\<close>, and its
  answer, authority and additional sequences are the old ones followed by those of
  \<open>result\<close>; \<^verbatim>\<open>next\<close> is called without an error.
\<close>

theorem forward_success_merges:
  assumes "k < length (forwarders_list forwarders)"
    and "\<forall>j < k.
     \<exists>e. fst (client parse serialize (forwarders_list forwarders ! j) 53 req OptionsUndefined
                (envs j)) = Rejected e"
    and "fst (client parse serialize (forwarders_list forwarders ! k) 53 req OptionsUndefined
                (envs k)) = Resolved result"
  shows "fst (forward parse serialize forwarders envs req res) =
           res\<lparr>rcode := rcode result,
               answer := answer res @ answer result,
               authority := authority res @ authority result,
               additional := additional res @ additional result\<rparr>
       \<and> fst (snd (forward parse serialize forwarders envs req res)) = Some Next"
proof -
  have "fst (tryForward parse serialize envs req 0 (forwarders_list forwarders)) =
     Resolved result"
    using assms by (intro tryForward_first_resolved [where k = k]) simp_all
  then show ?thesis
    by (auto simp: forward_def success_def push_all_append split: prod.splits outcome.splits)
qed

text \<open>C7 at a server that times out followed by one that answers.\<close>

theorem forward_success_merges_witness:
  "fst (client example_parse example_serialize ''a'' 53 example_query OptionsUndefined
          env_udp_timeout) = Rejected (Error ''Timeout'')
   \<and> fst (client example_parse example_serialize ''b'' 53 example_query OptionsUndefined
          env_udp_ok) =
       Resolved \<lparr>pkt_id = 7, truncated = False, rcode = 3, answer = [3], authority = [],
                 additional = []\<rparr>
   \<and> fst (forward example_parse example_serialize (ForwarderArray [''a'', ''b''])
            (\<lambda>i. if i = 0 then env_udp_timeout else env_udp_ok) example_query example_res) =
       \<lparr>pkt_id = 7, truncated = False, rcode = 3, answer = [40, 3], authority = [41],
        additional = []\<rparr>
   \<and> fst (snd (forward example_parse example_serialize (ForwarderArray [''a'', ''b''])
            (\<lambda>i. if i = 0 then env_udp_timeout else env_udp_ok) example_query example_res)) =
       Some Next"
proof -
  let ?envs = "\<lambda>i::nat. if i = 0 then env_udp_timeout else env_udp_ok"
  let ?r = "\<lparr>pkt_id = 7, truncated = False, rcode = 3, answer = [3::nat], authority = [],
                 additional = []\<rparr>"
  have a: "fst (client example_parse example_serialize ''a'' 53 example_query OptionsUndefined
          env_udp_timeout) = Rejected (Error ''Timeout'')"
    by (simp add: client_def udp_attempt_def env_udp_timeout_def)
  have b: "fst (client example_parse example_serialize ''b'' 53 example_query OptionsUndefined
          env_udp_ok) = Resolved ?r"
    by (simp add: client_def udp_attempt_def env_udp_ok_def udp_on_message_def
        example_parse_def example_query_def)
  have k: "(1::nat) < length (forwarders_list (ForwarderArray [''a'', ''b'']))"
    by (simp add: forwarders_list_def)
  have rej: "\<forall>j < (1::nat).
     \<exists>e. fst (client example_parse example_serialize
                (forwarders_list (ForwarderArray [''a'', ''b'']) ! j) 53 example_query
                OptionsUndefined (?envs j)) = Rejected e"
    using a by (simp add: forwarders_list_def)
  have ok: "fst (client example_parse example_serialize
                (forwarders_list (ForwarderArray [''a'', ''b'']) ! 1) 53 example_query
                OptionsUndefined (?envs 1)) = Resolved ?r"
    using b by (simp add: forwarders_list_def)
  from forward_success_merges [OF k rej ok, of example_res] a b show ?thesis
    by (simp add: example_res_def)
qed

text \<open>
  C10.  With an empty array of servers the middleware calls \<^verbatim>\<open>next\<close> with the error
  \<^verbatim>\<open>No more servers to try\<close>; there is no effect of any exchange and the packet of
  \<^verbatim>\<open>res\<close> is as it was.
\<close>

theorem forward_empty_list:
  "forward parse serialize (ForwarderArray []) envs req res =
     (res, Some (NextError (Error ''No more servers to try'')), [])"
  by (simp add: forward_def forwarders_list_def)

text \<open>C10 at the example request.\<close>

theorem forward_empty_list_witness:
  "forward example_parse example_serialize (ForwarderArray []) (\<lambda>i. env_udp_ok)
     example_query example_res =
     (example_res, Some (NextError (Error ''No more servers to try'')), [])"
  by (rule forward_empty_list)

end
